theory Spec2Isabelle
  imports Complex_Main
begin

section \<open>JavaScript values used by owperf.js\<close>

text \<open>
  The program computes with JavaScript numbers that may be missing. A value is
  \<open>Undefined\<close> (a field that was never set), \<open>NaN\<close>, or a number. Timestamps, durations
  and the running sums are integers (results of \<open>Date.getTime()\<close>, \<open>parseInt\<close> and sums
  of such), so they are \<open>int jsval\<close>; quotients are \<open>real jsval\<close>, computed exactly.
  For quotients \<open>NaN\<close> also stands for the infinities that a division by zero yields:
  no operation modelled here tells them apart.
\<close>

datatype 'a jsval = Undefined | NaN | Val 'a

text \<open>Truthiness of a number: \<open>undefined\<close>, \<open>NaN\<close> and \<open>0\<close> are falsy.\<close>

definition truthy :: "int jsval \<Rightarrow> bool" where
  "truthy v = (case v of Val x \<Rightarrow> x \<noteq> 0 | _ \<Rightarrow> False)"

text \<open>
  An error value stored on a sample is the object caught from a failed invocation
  (always truthy) or the text of a log entry's \<open>error\<close> field (falsy when empty);
  \<open>None\<close> is a field that was never set.
\<close>

datatype errval = ErrObj string | ErrText string

definition truthy_err :: "errval option \<Rightarrow> bool" where
  "truthy_err v = (case v of None \<Rightarrow> False | Some (ErrObj _) \<Rightarrow> True | Some (ErrText s) \<Rightarrow> s \<noteq> [])"

text \<open>Comparisons are false as soon as one side is not a number.\<close>

definition js_lt :: "int jsval \<Rightarrow> int jsval \<Rightarrow> bool" where
  "js_lt a b = (case (a, b) of (Val x, Val y) \<Rightarrow> x < y | _ \<Rightarrow> False)"

definition js_gt :: "int jsval \<Rightarrow> int jsval \<Rightarrow> bool" where
  "js_gt a b = (case (a, b) of (Val x, Val y) \<Rightarrow> x > y | _ \<Rightarrow> False)"

definition js_le :: "int jsval \<Rightarrow> int jsval \<Rightarrow> bool" where
  "js_le a b = (case (a, b) of (Val x, Val y) \<Rightarrow> x \<le> y | _ \<Rightarrow> False)"

definition js_ge :: "int jsval \<Rightarrow> int jsval \<Rightarrow> bool" where
  "js_ge a b = (case (a, b) of (Val x, Val y) \<Rightarrow> x \<ge> y | _ \<Rightarrow> False)"

text \<open>Arithmetic yields \<open>NaN\<close> as soon as one operand is not a number.\<close>

definition js_add :: "int jsval \<Rightarrow> int jsval \<Rightarrow> int jsval" where
  "js_add a b = (case (a, b) of (Val x, Val y) \<Rightarrow> Val (x + y) | _ \<Rightarrow> NaN)"

definition js_sub :: "int jsval \<Rightarrow> int jsval \<Rightarrow> int jsval" where
  "js_sub a b = (case (a, b) of (Val x, Val y) \<Rightarrow> Val (x - y) | _ \<Rightarrow> NaN)"

definition js_mul :: "int jsval \<Rightarrow> int jsval \<Rightarrow> int jsval" where
  "js_mul a b = (case (a, b) of (Val x, Val y) \<Rightarrow> Val (x * y) | _ \<Rightarrow> NaN)"

text \<open>\<open>parseInt\<close> applied to a field that holds an integer or is missing.\<close>

definition parseInt :: "int jsval \<Rightarrow> int jsval" where
  "parseInt v = (case v of Val x \<Rightarrow> Val x | _ \<Rightarrow> NaN)"

section \<open>Data model\<close>

text \<open>The eight latency statistics, the keys of \<open>latCounters\<close>.\<close>

datatype stat_name = Ta | Oea | Oer | D | Ad | Ora | Rtt | Ortt

text \<open>One entry of \<open>latCounters\<close>: \<open>{sum, sumSqr, min, max}\<close>, all \<open>undefined\<close> at first.\<close>

record lat_acc =
  sum_acc :: "int jsval"
  sumSqr :: "int jsval"
  min_acc :: "int jsval"
  max_acc :: "int jsval"

definition empty_acc :: lat_acc where
  "empty_acc = \<lparr>sum_acc = Undefined, sumSqr = Undefined, min_acc = Undefined, max_acc = Undefined\<rparr>"

text \<open>\<open>tpCounters\<close>.\<close>

record tp_counters =
  attempts :: int
  invocations :: int
  activations :: int
  requests :: int
  errors :: int

definition zero_tp :: tp_counters where
  "zero_tp = \<lparr>attempts = 0, invocations = 0, activations = 0, requests = 0, errors = 0\<rparr>"

text \<open>\<open>measurementTime\<close>: \<open>{start, stop}\<close>.\<close>

record measurement_time =
  start :: int
  stop :: int

text \<open>
  A sample: \<open>taid\<close>/\<open>taidError\<close> for a fired trigger, \<open>aaid\<close>/\<open>aaidError\<close> for an action
  invocation, \<open>bi\<close> (before invocation), \<open>ai\<close> (after invocation, blocking only) and
  \<open>ts\<close> (trigger start, set when the trigger activation is fetched).
\<close>

record sample =
  taid :: "string option"
  taidError :: "errval option"
  aaid :: "string option"
  aaidError :: "errval option"
  bi :: "int jsval"
  ai :: "int jsval"
  ts :: "int jsval"

definition empty_sample :: sample where
  "empty_sample = \<lparr>taid = None, taidError = None, aaid = None, aaidError = None,
     bi = Undefined, ai = Undefined, ts = Undefined\<rparr>"

text \<open>One parsed line of a trigger activation's \<open>logs\<close>.\<close>

record bound_action_record =
  success :: bool
  activationId :: "string option"
  error :: "errval option"

text \<open>
  An activation record as the platform returns it: \<open>start\<close>, \<open>end\<close>,
  \<open>response.result.duration\<close> and \<open>logs\<close>. A numeric field that is missing is
  \<open>Undefined\<close>; a log line on which \<open>JSON.parse\<close> throws is \<open>None\<close>. Every record
  has a \<open>response.result\<close> object and a \<open>logs\<close> array, as the platform's records do.
\<close>

record activation =
  act_start :: "int jsval"
  act_end :: "int jsval"
  act_duration :: "int jsval"
  act_logs :: "bound_action_record option list"

text \<open>
  The arguments of one call of \<open>sql_insert_workersample\<close> after \<open>db\<close> and \<open>expId\<close>:
  what arrives in the parameter \<open>trycnt\<close>, and what arrives in the thirteen
  parameters \<open>bi, as, ae, ts, ta, oea, oer, d, ad, ai, ora, rtt, ortt\<close>.
\<close>

record insert_call =
  arg_trycnt :: "int jsval"
  arg_row :: "int jsval list"

text \<open>The mutable state of one process during post-processing.\<close>

record pstate =
  tpCounters :: tp_counters
  latCounters :: "stat_name \<Rightarrow> lat_acc"
  sqlCalls :: "insert_call list"

definition init_pstate :: pstate where
  "init_pstate = \<lparr>tpCounters = zero_tp, latCounters = (\<lambda>_. empty_acc), sqlCalls = []\<rparr>"

datatype error = TypeError | FetchError | ParseError

section \<open>Post-processing of one sample\<close>

text \<open>\<open>updateLatSample(statName, value)\<close>.\<close>

definition updateLatSample ::
  "stat_name \<Rightarrow> int jsval \<Rightarrow> (stat_name \<Rightarrow> lat_acc) \<Rightarrow> (stat_name \<Rightarrow> lat_acc)" where
  "updateLatSample statName v lc =
     (if \<not> truthy v then lc
      else
        let a = lc statName;
            s = js_add (if \<not> truthy (sum_acc a) then Val 0 else sum_acc a) v;
            q = js_add (if \<not> truthy (sumSqr a) then Val 0 else sumSqr a) (js_mul v v);
            mn = (if \<not> truthy (min_acc a) \<or> js_gt (min_acc a) v then v else min_acc a);
            mx = (if \<not> truthy (max_acc a) \<or> js_lt (max_acc a) v then v else max_acc a)
        in lc(statName := \<lparr>sum_acc = s, sumSqr = q, min_acc = mn, max_acc = mx\<rparr>))"

text \<open>
  \<open>processSample(sample, activation)\<close>. The globals it reads (\<open>measurementTime\<close>,
  \<open>testRecord.input.sql\<close>) are parameters, the globals it writes are the \<open>pstate\<close>.
  The call of \<open>sql_insert_workersample\<close> passes \<open>bi\<close> right after \<open>expId\<close>, so \<open>bi\<close>
  arrives in the parameter \<open>trycnt\<close> and the other arguments move up by one place.
\<close>

definition processSample ::
  "measurement_time \<Rightarrow> bool \<Rightarrow> sample \<Rightarrow> activation option \<Rightarrow> pstate \<Rightarrow> pstate" where
  "processSample mt sql smp actv st =
     (if js_lt (bi smp) (Val (start mt)) \<or> js_gt (bi smp) (Val (stop mt)) then st
      else
        let tp1 = (tpCounters st)\<lparr>attempts := attempts (tpCounters st) + 1\<rparr> in
        if truthy_err (taidError smp)
        then st\<lparr>tpCounters := tp1\<lparr>requests := requests tp1 + 1, errors := errors tp1 + 1\<rparr>\<rparr>
        else
          let tsv = (if truthy (ts smp) then parseInt (ts smp) else Undefined);
              tp2 = (if truthy (ts smp) \<and> js_ge tsv (Val (start mt)) \<and> js_le tsv (Val (stop mt))
                     then tp1\<lparr>activations := activations tp1 + 1, requests := requests tp1 + 1\<rparr>
                     else tp1) in
          if truthy_err (aaidError smp)
          then st\<lparr>tpCounters := tp2\<lparr>requests := requests tp2 + 1, errors := errors tp2 + 1\<rparr>\<rparr>
          else
            case actv of
              None \<Rightarrow> st\<lparr>tpCounters := tp2\<rparr>
            | Some act \<Rightarrow>
                let as = parseInt (act_start act);
                    ae = parseInt (act_end act);
                    d = parseInt (act_duration act) in
                if js_lt as (Val (start mt)) \<or> js_gt ae (Val (stop mt))
                then st\<lparr>tpCounters := tp2\<rparr>
                else
                  let tp3 = tp2\<lparr>activations := activations tp2 + 1,
                                 requests := requests tp2 + 1,
                                 invocations := invocations tp2 + 1\<rparr>;
                      ta = (if truthy tsv then js_sub as tsv else Undefined);
                      ad = js_sub ae as;
                      oea = js_sub as (bi smp);
                      oer = js_sub (js_sub ae (bi smp)) d;
                      lc1 = updateLatSample Oer oer (updateLatSample Oea oea
                             (updateLatSample Ad ad (updateLatSample Ta ta
                               (updateLatSample D d (latCounters st)))));
                      aiv = ai smp;
                      ora = (if truthy aiv then js_sub aiv ae else Undefined);
                      rtt = (if truthy aiv then js_sub aiv (bi smp) else Undefined);
                      ortt = (if truthy rtt then js_sub rtt d else Undefined);
                      lc2 = updateLatSample Ortt ortt (updateLatSample Rtt rtt
                             (updateLatSample Ora ora lc1))
                  in st\<lparr>tpCounters := tp3, latCounters := lc2,
                        sqlCalls := (if sql
                          then sqlCalls st @ [\<lparr>arg_trycnt = bi smp,
                                 arg_row = [as, ae, tsv, ta, oea, oer, d, ad, aiv, ora, rtt, ortt,
                                            Undefined]\<rparr>]
                          else sqlCalls st)\<rparr>)"

section \<open>Post-processing of the sample buffer\<close>

datatype activity = ACTION | RULE

datatype blocking = RESULT | ACTIVATION | NONE

text \<open>
  \<open>ow.activations.get({name: id})\<close> is a parameter \<open>fetch\<close>: the platform's answer for
  an id, \<open>None\<close> when the promise rejects.

  \<open>processSampleWithAction(actionSample)\<close>.
\<close>

definition processSampleWithAction ::
  "(string option \<Rightarrow> activation option) \<Rightarrow> measurement_time \<Rightarrow> bool \<Rightarrow> sample \<Rightarrow> pstate \<Rightarrow> pstate" where
  "processSampleWithAction fetch mt sql actionSample st =
     (if truthy_err (aaidError actionSample) then processSample mt sql actionSample None st
      else processSample mt sql actionSample (fetch (aaid actionSample)) st)"

text \<open>
  The \<open>for\<close> loop of \<open>getActionSamplesOfRules\<close> over \<open>triggerActivation.logs\<close>: each
  entry yields a copy of the trigger sample with \<open>aaid\<close> or \<open>aaidError\<close> set; an entry
  that does not parse rejects the whole promise.
\<close>

fun actionSamplesLoop :: "sample \<Rightarrow> bound_action_record option list \<Rightarrow> error + sample list" where
  "actionSamplesLoop triggerSample [] = Inr []"
| "actionSamplesLoop triggerSample (None # logs) = Inl ParseError"
| "actionSamplesLoop triggerSample (Some boundActionRecord # logs) =
     (case actionSamplesLoop triggerSample logs of
        Inl e \<Rightarrow> Inl e
      | Inr actionSamples \<Rightarrow>
          Inr ((if success boundActionRecord
                then triggerSample\<lparr>aaid := activationId boundActionRecord\<rparr>
                else triggerSample\<lparr>aaidError := error boundActionRecord\<rparr>) # actionSamples))"

text \<open>
  \<open>getActionSamplesOfRules(triggerSample)\<close>: the trigger sample with \<open>ts\<close> set (the
  function assigns it in place) and the derived action samples, or the rejection.
\<close>

definition getActionSamplesOfRules ::
  "(string option \<Rightarrow> activation option) \<Rightarrow> sample \<Rightarrow> error + (sample \<times> sample list)" where
  "getActionSamplesOfRules fetch triggerSample =
     (case fetch (taid triggerSample) of
        None \<Rightarrow> Inl FetchError
      | Some triggerActivation \<Rightarrow>
          let triggerSample' = triggerSample\<lparr>ts := act_start triggerActivation\<rparr> in
          (case actionSamplesLoop triggerSample' (act_logs triggerActivation) of
             Inl e \<Rightarrow> Inl e
           | Inr actionSamples \<Rightarrow> Inr (triggerSample', actionSamples)))"

text \<open>
  \<open>postProcess()\<close> over the sample buffer; \<open>Inl\<close> is the rejected promise. The buffer is
  not read again afterwards, so the trigger sample updated in place is dropped.
\<close>

fun postProcess ::
  "activity \<Rightarrow> (string option \<Rightarrow> activation option) \<Rightarrow> measurement_time \<Rightarrow> bool \<Rightarrow>
   sample list \<Rightarrow> pstate \<Rightarrow> error + pstate" where
  "postProcess act fetch mt sql [] st = Inr st"
| "postProcess act fetch mt sql (smp # sampleData) st =
     (if act = ACTION
      then postProcess act fetch mt sql sampleData (processSampleWithAction fetch mt sql smp st)
      else if truthy_err (taidError smp)
      then postProcess act fetch mt sql sampleData (processSample mt sql smp None st)
      else
        (case getActionSamplesOfRules fetch smp of
           Inl e \<Rightarrow> Inl e
         | Inr (smp', actionSamples) \<Rightarrow>
             postProcess act fetch mt sql sampleData
               (foldl (\<lambda>s a. processSampleWithAction fetch mt sql a s) st actionSamples)))"

section \<open>Aggregation at the master\<close>

text \<open>Arithmetic on quotients.\<close>

definition to_real :: "int jsval \<Rightarrow> real jsval" where
  "to_real v = (case v of Val x \<Rightarrow> Val (real_of_int x) | NaN \<Rightarrow> NaN | Undefined \<Rightarrow> Undefined)"

definition r_div :: "real jsval \<Rightarrow> real jsval \<Rightarrow> real jsval" where
  "r_div a b = (case (a, b) of (Val x, Val y) \<Rightarrow> (if y = 0 then NaN else Val (x / y)) | _ \<Rightarrow> NaN)"

definition r_sub :: "real jsval \<Rightarrow> real jsval \<Rightarrow> real jsval" where
  "r_sub a b = (case (a, b) of (Val x, Val y) \<Rightarrow> Val (x - y) | _ \<Rightarrow> NaN)"

definition r_mul :: "real jsval \<Rightarrow> real jsval \<Rightarrow> real jsval" where
  "r_mul a b = (case (a, b) of (Val x, Val y) \<Rightarrow> Val (x * y) | _ \<Rightarrow> NaN)"

text \<open>\<open>Math.sqrt\<close>: \<open>NaN\<close> on a negative argument.\<close>

definition js_sqrt :: "real jsval \<Rightarrow> real jsval" where
  "js_sqrt a = (case a of Val x \<Rightarrow> (if x < 0 then NaN else Val (sqrt x)) | _ \<Rightarrow> NaN)"

text \<open>One entry of \<open>workerData\<close>: \<open>{lat: latCounters, tp: tpCounters}\<close>.\<close>

record worker_data =
  lat :: "stat_name \<Rightarrow> lat_acc"
  tp :: tp_counters

text \<open>The local variables of \<open>computeLatStats\<close>.\<close>

record lat_totals =
  totalSum :: "int jsval"
  totalSumSqr :: "int jsval"
  totalInvocations :: int
  hasSamples :: bool
  min_tot :: "int jsval"
  max_tot :: "int jsval"

definition init_totals :: lat_totals where
  "init_totals = \<lparr>totalSum = Val 0, totalSumSqr = Val 0, totalInvocations = 0,
     hasSamples = False, min_tot = Undefined, max_tot = Undefined\<rparr>"

text \<open>The body of the \<open>forEach\<close> of \<open>computeLatStats\<close> (regular mode).\<close>

definition latStep :: "stat_name \<Rightarrow> lat_totals \<Rightarrow> worker_data \<Rightarrow> lat_totals" where
  "latStep statName t wd =
     (let a = lat wd statName;
          t1 = (if truthy (sum_acc a)
                then t\<lparr>hasSamples := True,
                       totalSum := js_add (totalSum t) (sum_acc a),
                       totalSumSqr := js_add (totalSumSqr t) (sumSqr a),
                       min_tot := (if \<not> truthy (min_tot t) \<or> js_gt (min_tot t) (min_acc a)
                                   then min_acc a else min_tot t),
                       max_tot := (if \<not> truthy (max_tot t) \<or> js_lt (max_tot t) (max_acc a)
                                   then max_acc a else max_tot t)\<rparr>
                else t)
      in t1\<lparr>totalInvocations := totalInvocations t1 + invocations (tp wd)\<rparr>)"

record lat_stats =
  avg :: "real jsval"
  std :: "real jsval"
  min_stat :: "int jsval"
  max_stat :: "int jsval"

text \<open>The last three statements of \<open>computeLatStats\<close>.\<close>

definition latResult :: "lat_totals \<Rightarrow> lat_stats" where
  "latResult t =
     (let n = Val (real_of_int (totalInvocations t));
          av = (if hasSamples t then r_div (to_real (totalSum t)) n else Undefined);
          sd = (if hasSamples t
                then js_sqrt (r_sub (r_div (to_real (totalSumSqr t)) n) (r_mul av av))
                else Undefined)
      in \<lparr>avg = av, std = sd, min_stat = min_tot t, max_stat = max_tot t\<rparr>)"

text \<open>
  \<open>computeLatStats(statName)\<close>; \<open>testRecord.input.master_apart\<close> and \<open>workerData\<close> are
  parameters. Reading \<open>workerData[0]\<close> of an empty array throws.
\<close>

definition computeLatStats :: "bool \<Rightarrow> worker_data list \<Rightarrow> stat_name \<Rightarrow> error + lat_stats" where
  "computeLatStats master_apart workerData statName =
     (if master_apart
      then (case workerData of
              [] \<Rightarrow> Inl TypeError
            | wd0 # _ \<Rightarrow>
                Inr (latResult (init_totals\<lparr>
                  totalSum := sum_acc (lat wd0 statName),
                  totalSumSqr := sumSqr (lat wd0 statName),
                  min_tot := min_acc (lat wd0 statName),
                  max_tot := max_acc (lat wd0 statName),
                  totalInvocations := invocations (tp wd0)\<rparr>)))
      else Inr (latResult (foldl (latStep statName) init_totals workerData)))"

text \<open>The counters that \<open>computeTpStats\<close> is called with.\<close>

datatype counter_name = Attempts | Invocations | Activations | Requests

fun counter :: "counter_name \<Rightarrow> tp_counters \<Rightarrow> int" where
  "counter Attempts c = attempts c"
| "counter Invocations c = invocations c"
| "counter Activations c = activations c"
| "counter Requests c = requests c"

record tp_stats =
  abs_stat :: int
  tp_stat :: "real jsval"
  tpw :: "real jsval"
  tpd :: "real jsval"

text \<open>
  \<open>computeTpStats(statName)\<close>; \<open>testRecord.output.measure_time\<close> (seconds) is the
  parameter \<open>measure_time\<close>.
\<close>

definition computeTpStats :: "real \<Rightarrow> worker_data list \<Rightarrow> counter_name \<Rightarrow> error + tp_stats" where
  "computeTpStats measure_time workerData statName =
     (case workerData of
        [] \<Rightarrow> Inl TypeError
      | wd0 # _ \<Rightarrow>
          let masterCount = counter statName (tp wd0);
              totalCount = foldl (\<lambda>c wd. c + counter statName (tp wd)) 0 workerData;
              tpv = r_div (Val (real_of_int totalCount)) (Val measure_time);
              tpwv = r_div (Val (real_of_int (totalCount - masterCount))) (Val measure_time);
              tpdv = r_div (r_mul (r_sub tpv tpwv) (Val 100)) tpv
          in Inr \<lparr>abs_stat = totalCount, tp_stat = tpv, tpw = tpwv, tpd = tpdv\<rparr>)"

section \<open>The persistence sink\<close>

text \<open>
  \<open>sql_insert_workersample(db, expId, trycnt, bi, ..., ortt)\<close>. Each \<open>db.run\<close> either
  succeeds or calls back with an error; \<open>run_fails n\<close> tells whether the call made
  after \<open>n\<close> earlier calls for this row fails. The row values are handed on unchanged
  and do not influence the control flow. The outcome carries the number of \<open>db.run\<close>
  calls made; \<open>GaveUp\<close> is the branch that logs "giving up for this sample".
\<close>

datatype insert_outcome = Inserted nat | GaveUp nat

function sql_insert_workersample :: "(nat \<Rightarrow> bool) \<Rightarrow> nat \<Rightarrow> int jsval \<Rightarrow> insert_outcome" where
  "sql_insert_workersample run_fails n trycnt =
     (if run_fails n
      then (if js_lt trycnt (Val 50)
            then sql_insert_workersample run_fails (Suc n) (js_add trycnt (Val 1))
            else GaveUp (Suc n))
      else Inserted (Suc n))"
  by pat_completeness auto
termination
  by (relation "measure (\<lambda>(f, n, t). case t of Val x \<Rightarrow> nat (50 - x) | _ \<Rightarrow> 0)")
     (auto simp: js_lt_def js_add_def split: jsval.splits)

declare sql_insert_workersample.simps [simp del]

text \<open>The insert that \<open>processSample\<close> starts for one recorded call.\<close>

definition run_insert :: "(nat \<Rightarrow> bool) \<Rightarrow> insert_call \<Rightarrow> insert_outcome" where
  "run_insert run_fails c = sql_insert_workersample run_fails 0 (arg_trycnt c)"

section \<open>The invocation loop\<close>

text \<open>The fields of \<open>testRecord.input\<close> that the loop reads.\<close>

record input =
  activity :: activity
  blocking :: blocking
  master_activity :: "activity option"
  master_blocking :: "blocking option"
  ratio :: int
  warmup :: int
  iterations :: "int jsval"
  period :: "int jsval"
  workers :: int
  burst_timing :: bool

text \<open>
  The global \<open>activity\<close> and the local \<open>blocking\<close> of \<open>mainLoop\<close>: the master's own
  setting where one is given, the common one otherwise.
\<close>

definition resolved_activity :: "bool \<Rightarrow> input \<Rightarrow> activity" where
  "resolved_activity isMaster inp =
     (case master_activity inp of
        None \<Rightarrow> activity inp
      | Some a \<Rightarrow> (if isMaster then a else activity inp))"

definition resolved_blocking :: "bool \<Rightarrow> input \<Rightarrow> blocking" where
  "resolved_blocking isMaster inp =
     (case master_blocking inp of
        None \<Rightarrow> blocking inp
      | Some b \<Rightarrow> (if isMaster then b else blocking inp))"

text \<open>
  A callback that runs while the loop awaits: the timer scheduled by \<open>checkInit\<close>, the
  master's abort message at a worker, a worker's init message at the master.
\<close>

datatype async_event = TimerFired | AbortMsg measurement_time | InitMsg

text \<open>
  What the process observes from outside in pass \<open>k\<close> of the loop: the clock readings,
  the answers of the platform to the invocations (\<open>Inl\<close> the error, \<open>Inr\<close> the returned
  \<open>activationId\<close>), and the callbacks that run during the pass.
\<close>

record env =
  clock_start :: "nat \<Rightarrow> int"
  clock_si :: "nat \<Rightarrow> int"
  clock_bi :: "nat \<Rightarrow> nat \<Rightarrow> int"
  clock_ai :: "nat \<Rightarrow> nat \<Rightarrow> int"
  action_result :: "nat \<Rightarrow> nat \<Rightarrow> string + string option"
  trigger_result :: "nat \<Rightarrow> string + string option"
  events :: "nat \<Rightarrow> async_event list"

text \<open>The globals and locals that the loop changes.\<close>

record loop_state =
  warmupCounter :: int
  remainingInits :: int
  remainingIterations :: int
  abort :: bool
  sampleData :: "sample list"
  measurementTime :: measurement_time
  timerSet :: bool
  initsSent :: nat

definition init_loop :: "input \<Rightarrow> loop_state" where
  "init_loop inp = \<lparr>warmupCounter = warmup inp, remainingInits = workers inp,
     remainingIterations = - 1, abort = False, sampleData = [],
     measurementTime = \<lparr>start = - 1, stop = - 1\<rparr>, timerSet = False, initsSent = 0\<rparr>"

text \<open>\<open>checkInit()\<close>, with the clock reading it would take.\<close>

definition checkInit :: "input \<Rightarrow> int \<Rightarrow> loop_state \<Rightarrow> loop_state" where
  "checkInit inp now st =
     (let st1 = st\<lparr>remainingInits := remainingInits st - 1\<rparr> in
      if remainingInits st1 = 0
      then
        let st2 = st1\<lparr>measurementTime := (measurementTime st1)\<lparr>start := now\<rparr>\<rparr>;
            st3 = (if truthy (period inp) then st2\<lparr>timerSet := True\<rparr> else st2)
        in (case iterations inp of
              Val n \<Rightarrow> (if n \<noteq> 0 then st3\<lparr>remainingIterations := n\<rparr> else st3)
            | _ \<Rightarrow> st3)
      else st1)"

text \<open>The handlers of the callbacks; \<open>abortLoop()\<close> sets \<open>abort\<close>.\<close>

definition handle_event :: "bool \<Rightarrow> input \<Rightarrow> int \<Rightarrow> loop_state \<Rightarrow> async_event \<Rightarrow> loop_state" where
  "handle_event isMaster inp now st ev =
     (case ev of
        TimerFired \<Rightarrow> (if timerSet st then st\<lparr>abort := True\<rparr> else st)
      | AbortMsg m \<Rightarrow> (if isMaster then st else st\<lparr>measurementTime := m, abort := True\<rparr>)
      | InitMsg \<Rightarrow> (if isMaster then checkInit inp now st else st))"

text \<open>
  \<open>invokeActions(count, doBlocking, getResult, burst_bi)\<close> in pass \<open>k\<close>: one sample per
  invocation, \<open>{aaid, bi, ai}\<close> or \<open>{aaidError}\<close>. \<open>getResult\<close> only changes what the
  platform is asked for.
\<close>

definition invokeActions :: "input \<Rightarrow> env \<Rightarrow> nat \<Rightarrow> int \<Rightarrow> bool \<Rightarrow> int \<Rightarrow> sample list" where
  "invokeActions inp e k count doBlocking burst_bi =
     map (\<lambda>i. case action_result e k i of
                 Inr returnedId \<Rightarrow>
                   empty_sample\<lparr>aaid := returnedId,
                     bi := Val (if burst_timing inp then burst_bi else clock_bi e k i),
                     ai := (if doBlocking then Val (clock_ai e k i) else Undefined)\<rparr>
               | Inl err \<Rightarrow> empty_sample\<lparr>aaidError := Some (ErrObj err)\<rparr>)
         [0..<nat count]"

text \<open>\<open>invokeRules(bi)\<close> in pass \<open>k\<close>: a single sample, \<open>{taid, bi}\<close> or \<open>{taidError}\<close>.\<close>

definition invokeRules :: "env \<Rightarrow> nat \<Rightarrow> int \<Rightarrow> sample list" where
  "invokeRules e k b =
     [case trigger_result e k of
        Inr triggerActivationId \<Rightarrow> empty_sample\<lparr>taid := triggerActivationId, bi := Val b\<rparr>
      | Inl err \<Rightarrow> empty_sample\<lparr>taidError := Some (ErrObj err)\<rparr>]"

text \<open>
  One pass through the body of the \<open>while\<close> loop of \<open>mainLoop\<close>. The pacing sleep only
  lets time pass; the callbacks of the pass run at its awaits.
\<close>

definition loopPass :: "bool \<Rightarrow> input \<Rightarrow> env \<Rightarrow> nat \<Rightarrow> loop_state \<Rightarrow> loop_state" where
  "loopPass isMaster inp e k st =
     (let st1 = (if warmupCounter st = 0
                 then (if isMaster then checkInit inp (clock_start e k) st
                       else st\<lparr>initsSent := Suc (initsSent st)\<rparr>)
                 else st);
          st2 = (if warmupCounter st1 \<ge> 0 then st1\<lparr>warmupCounter := warmupCounter st1 - 1\<rparr>
                 else st1)
      in if remainingIterations st2 = 0 then st2\<lparr>abort := True\<rparr>
         else
           let st3 = (if remainingIterations st2 > 0
                      then st2\<lparr>remainingIterations := remainingIterations st2 - 1\<rparr> else st2);
               si = clock_si e k;
               samples = (if resolved_activity isMaster inp = ACTION
                          then invokeActions inp e k (ratio inp)
                                 (resolved_blocking isMaster inp \<noteq> NONE) si
                          else invokeRules e k si);
               st4 = st3\<lparr>sampleData := sampleData st3 @ samples\<rparr>
           in foldl (handle_event isMaster inp (clock_start e k)) st4 (events e k))"

text \<open>
  \<open>mainLoop()\<close>: the loop runs until \<open>abort\<close> is set, which need not happen. The first
  argument bounds the number of passes; \<open>None\<close> is a loop still running after them.
\<close>

fun mainLoop :: "nat \<Rightarrow> bool \<Rightarrow> input \<Rightarrow> env \<Rightarrow> nat \<Rightarrow> loop_state \<Rightarrow> loop_state option" where
  "mainLoop 0 isMaster inp e k st = (if abort st then Some st else None)"
| "mainLoop (Suc fuel) isMaster inp e k st =
     (if abort st then Some st
      else mainLoop fuel isMaster inp e (Suc k) (loopPass isMaster inp e k st))"

text \<open>
  The shape of a sample that a non-blocking action invocation leaves in the buffer:
  nothing of a trigger on it, and \<open>ai\<close> not set.
\<close>

definition plain_action_sample :: "sample \<Rightarrow> bool" where
  "plain_action_sample s = (ai s = Undefined \<and> taid s = None \<and> taidError s = None)"

section \<open>Properties of the latency accumulators\<close>

text \<open>
  C10: a metric value that is exactly \<open>0\<close> is skipped by \<open>updateLatSample\<close>: no field
  of any accumulator changes, and the result is the same as for a value that was never
  computed (\<open>undefined\<close>).
\<close>

theorem updateLatSample_skips_zero:
  "updateLatSample statName (Val 0) lc = lc \<and>
   updateLatSample statName (Val 0) lc = updateLatSample statName Undefined lc"
  by (simp add: updateLatSample_def truthy_def)

theorem updateLatSample_skips_zero_witness:
  "updateLatSample Oer (Val 0) (\<lambda>_. empty_acc) = (\<lambda>_. empty_acc) \<and>
   updateLatSample Oer (Val 0) (\<lambda>_. empty_acc) = updateLatSample Oer Undefined (\<lambda>_. empty_acc)"
  by (rule updateLatSample_skips_zero)

lemma latStep_no_samples:
  "\<not> truthy (sum_acc (lat wd statName)) \<Longrightarrow> hasSamples (latStep statName t wd) = hasSamples t"
  by (simp add: latStep_def Let_def)

lemma foldl_latStep_no_samples:
  "\<forall>wd \<in> set workerData. \<not> truthy (sum_acc (lat wd statName)) \<Longrightarrow>
   hasSamples (foldl (latStep statName) t workerData) = hasSamples t"
  by (induction workerData arbitrary: t) (simp_all add: latStep_no_samples)

lemma latResult_no_samples:
  "\<not> hasSamples t \<Longrightarrow> avg (latResult t) = Undefined \<and> std (latResult t) = Undefined"
  by (simp add: latResult_def Let_def)

text \<open>
  C6: if no process contributed a sample to a metric (its \<open>sum\<close> is still \<open>undefined\<close>
  in every entry of \<open>workerData\<close>), then \<open>computeLatStats\<close> returns \<open>avg\<close> and \<open>std\<close>
  \<open>undefined\<close>, which is neither the number zero nor \<open>NaN\<close>; and a metric value that is
  \<open>undefined\<close> leaves every accumulator as it was.
\<close>

theorem computeLatStats_no_samples:
  assumes "workerData \<noteq> []"
    and "\<forall>wd \<in> set workerData. sum_acc (lat wd statName) = Undefined"
  shows "(\<exists>r. computeLatStats master_apart workerData statName = Inr r \<and>
              avg r = Undefined \<and> std r = Undefined \<and>
              avg r \<noteq> Val 0 \<and> avg r \<noteq> NaN \<and> std r \<noteq> Val 0 \<and> std r \<noteq> NaN) \<and>
         updateLatSample statName Undefined lc = lc"
proof -
  from assms(2) have ns: "\<forall>wd \<in> set workerData. \<not> truthy (sum_acc (lat wd statName))"
    by (simp add: truthy_def)
  have "\<not> hasSamples (foldl (latStep statName) init_totals workerData)"
    using foldl_latStep_no_samples [OF ns, of init_totals] by (simp add: init_totals_def)
  then have reg: "\<exists>r. computeLatStats False workerData statName = Inr r \<and>
              avg r = Undefined \<and> std r = Undefined"
    by (simp add: computeLatStats_def latResult_no_samples)
  obtain wd0 rest where wd: "workerData = wd0 # rest"
    using assms(1) by (cases workerData) auto
  have apart: "\<exists>r. computeLatStats True workerData statName = Inr r \<and>
              avg r = Undefined \<and> std r = Undefined"
    by (simp add: computeLatStats_def wd latResult_no_samples init_totals_def)
  have skip: "updateLatSample statName Undefined lc = lc"
    by (simp add: updateLatSample_def truthy_def)
  from reg apart have "\<exists>r. computeLatStats master_apart workerData statName = Inr r \<and>
              avg r = Undefined \<and> std r = Undefined"
    by (cases master_apart) simp_all
  then obtain r where "computeLatStats master_apart workerData statName = Inr r"
    and "avg r = Undefined" and "std r = Undefined" by blast
  with skip show ?thesis by simp
qed

theorem computeLatStats_no_samples_witness:
  "(\<exists>r. computeLatStats False [\<lparr>lat = (\<lambda>_. empty_acc), tp = zero_tp\<rparr>] Rtt = Inr r \<and>
         avg r = Undefined \<and> std r = Undefined \<and>
         avg r \<noteq> Val 0 \<and> avg r \<noteq> NaN \<and> std r \<noteq> Val 0 \<and> std r \<noteq> NaN) \<and>
   updateLatSample Rtt Undefined (\<lambda>_. empty_acc) = (\<lambda>_. empty_acc)"
  using computeLatStats_no_samples
    [of "[\<lparr>lat = (\<lambda>_. empty_acc), tp = zero_tp\<rparr>]" Rtt False "\<lambda>_. empty_acc"]
  by (simp add: empty_acc_def)

text \<open>
  C3: in master-apart mode \<open>computeLatStats\<close> copies the master's \<open>sum\<close>, \<open>sumSqr\<close>,
  \<open>min\<close>, \<open>max\<close> and \<open>invocations\<close>, but never sets \<open>hasSamples\<close>, so \<open>avg\<close> and
  \<open>std\<close> come out \<open>undefined\<close>. Here the master has two invocations of 50 msec each:
  the average the claim describes is \<open>100 / 2 = 50\<close> and the deviation \<open>0\<close>.
\<close>

theorem computeLatStats_master_apart_undefined:
  "computeLatStats True
     [\<lparr>lat = (\<lambda>_. \<lparr>sum_acc = Val 100, sumSqr = Val 5000, min_acc = Val 50, max_acc = Val 50\<rparr>),
       tp = zero_tp\<lparr>invocations := 2\<rparr>\<rparr>] D
   = Inr \<lparr>avg = Undefined, std = Undefined, min_stat = Val 50, max_stat = Val 50\<rparr>"
  by (simp add: computeLatStats_def latResult_def init_totals_def Let_def)

theorem computeLatStats_master_apart_undefined_witness:
  "\<exists>r. computeLatStats True
     [\<lparr>lat = (\<lambda>_. \<lparr>sum_acc = Val 100, sumSqr = Val 5000, min_acc = Val 50, max_acc = Val 50\<rparr>),
       tp = zero_tp\<lparr>invocations := 2\<rparr>\<rparr>] D = Inr r \<and> avg r = Undefined"
  using computeLatStats_master_apart_undefined by simp

section \<open>Properties of the throughput statistics\<close>

lemma foldl_counter_sum:
  "foldl (\<lambda>c wd. c + counter statName (tp wd)) a workerData =
   a + sum_list (map (\<lambda>wd. counter statName (tp wd)) workerData)"
  by (induction workerData arbitrary: a) simp_all

text \<open>
  C7: for every counter, when the measured duration is positive, every process's count is
  non-negative and the master's count is at most the total, \<open>computeTpStats\<close> returns
  numbers \<open>tp\<close> and \<open>tpw\<close> with \<open>tp \<ge> tpw \<ge> 0\<close>, where \<open>tp\<close> is the total over the
  duration and \<open>tpw\<close> the total without the master's count over the duration, and \<open>tpd\<close>
  is \<open>(tp - tpw) * 100 / tp\<close>.
\<close>

theorem computeTpStats_invariant:
  assumes mt: "0 < measure_time"
    and nonneg: "\<forall>wd \<in> set (wd0 # rest). 0 \<le> counter statName (tp wd)"
    and le: "counter statName (tp wd0) \<le>
             sum_list (map (\<lambda>wd. counter statName (tp wd)) (wd0 # rest))"
  shows "\<exists>r x y. computeTpStats measure_time (wd0 # rest) statName = Inr r \<and>
           abs_stat r = sum_list (map (\<lambda>wd. counter statName (tp wd)) (wd0 # rest)) \<and>
           tp_stat r = Val x \<and> tpw r = Val y \<and> x \<ge> y \<and> y \<ge> 0 \<and>
           x = real_of_int (abs_stat r) / measure_time \<and>
           y = real_of_int (abs_stat r - counter statName (tp wd0)) / measure_time \<and>
           tpd r = r_div (Val ((x - y) * 100)) (Val x)"
proof -
  let ?total = "sum_list (map (\<lambda>wd. counter statName (tp wd)) (wd0 # rest))"
  let ?m = "counter statName (tp wd0)"
  let ?x = "real_of_int ?total / measure_time"
  let ?y = "real_of_int (?total - ?m) / measure_time"
  have m0: "0 \<le> ?m" using nonneg by simp
  have xy: "?y \<le> ?x" using mt m0 by (simp add: divide_le_cancel)
  have y0: "0 \<le> ?y" using mt le by simp
  have "computeTpStats measure_time (wd0 # rest) statName =
     Inr \<lparr>abs_stat = ?total, tp_stat = Val ?x, tpw = Val ?y,
          tpd = r_div (Val ((?x - ?y) * 100)) (Val ?x)\<rparr>"
    using mt
    by (simp add: computeTpStats_def Let_def foldl_counter_sum r_div_def r_sub_def r_mul_def)
  with xy y0 show ?thesis by simp
qed

theorem computeTpStats_invariant_witness:
  "\<exists>r x y. computeTpStats 2
       [\<lparr>lat = (\<lambda>_. empty_acc), tp = zero_tp\<lparr>requests := 4\<rparr>\<rparr>,
        \<lparr>lat = (\<lambda>_. empty_acc), tp = zero_tp\<lparr>requests := 6\<rparr>\<rparr>] Requests = Inr r \<and>
     abs_stat r = 10 \<and> tp_stat r = Val x \<and> tpw r = Val y \<and> x \<ge> y \<and> y \<ge> 0 \<and>
     x = 5 \<and> y = 3 \<and> tpd r = Val 40"
  using computeTpStats_invariant
    [of 2 "\<lparr>lat = (\<lambda>_. empty_acc), tp = zero_tp\<lparr>requests := 4\<rparr>\<rparr>"
        "[\<lparr>lat = (\<lambda>_. empty_acc), tp = zero_tp\<lparr>requests := 6\<rparr>\<rparr>]" Requests]
  by (auto simp add: zero_tp_def r_div_def)

section \<open>Properties of the time window\<close>

text \<open>
  A sample that carries \<open>bi\<close> is discarded, with no change of the state, exactly when
  \<open>bi\<close> lies outside \<open>[start, stop]\<close>; both bounds are admitted.
\<close>

lemma processSample_outside:
  assumes "bi smp = Val b" and "b < start mt \<or> stop mt < b"
  shows "processSample mt sql smp actv st = st"
  using assms by (auto simp add: processSample_def js_lt_def js_gt_def)

lemma processSample_inside:
  assumes "bi smp = Val b" and "start mt \<le> b" and "b \<le> stop mt"
  shows "attempts (tpCounters (processSample mt sql smp actv st)) = attempts (tpCounters st) + 1"
  using assms
  by (auto simp add: processSample_def js_lt_def js_gt_def Let_def split: option.splits)

text \<open>
  C1: \<open>invokeActions\<close> resolves a failed invocation to \<open>{aaidError: err}\<close>, a sample
  without \<open>bi\<close>. Both comparisons of \<open>processSample\<close> with \<open>undefined\<close> are false, so
  the sample passes the window test whenever it was taken: it is counted as an attempt,
  a request and an error, although \<open>start \<le> bi \<le> stop\<close> does not hold for it.
\<close>

theorem processSample_error_sample_no_bi:
  "invokeActions inp
      (e\<lparr>action_result := (\<lambda>_ _. Inl ''failed'')\<rparr>) k 1 doBlocking si
     = [empty_sample\<lparr>aaidError := Some (ErrObj ''failed'')\<rparr>] \<and>
   bi (empty_sample\<lparr>aaidError := Some (ErrObj ''failed'')\<rparr>) = Undefined \<and>
   tpCounters (processSample \<lparr>start = 1000, stop = 2000\<rparr> False
      (empty_sample\<lparr>aaidError := Some (ErrObj ''failed'')\<rparr>) None init_pstate)
   = \<lparr>attempts = 1, invocations = 0, activations = 0, requests = 1, errors = 1\<rparr>"
  by (simp add: invokeActions_def processSample_def empty_sample_def init_pstate_def zero_tp_def
      js_lt_def js_gt_def truthy_err_def truthy_def Let_def)

theorem processSample_error_sample_no_bi_witness:
  "attempts (tpCounters (processSample \<lparr>start = 1000, stop = 2000\<rparr> False
      (empty_sample\<lparr>aaidError := Some (ErrObj ''failed'')\<rparr>) None init_pstate)) = 1"
  using processSample_error_sample_no_bi by simp

section \<open>Properties of the persistence sink\<close>

text \<open>
  Called with \<open>trycnt = 0\<close>, \<open>sql_insert_workersample\<close> makes one call and up to 50
  retries before it gives up.
\<close>

lemma sql_insert_all_fail:
  "0 \<le> t \<Longrightarrow> t \<le> 50 \<Longrightarrow>
   sql_insert_workersample (\<lambda>_. True) n (Val t) = GaveUp (n + nat (51 - t))"
proof (induction "nat (50 - t)" arbitrary: t n)
  case 0
  then have "t = 50" by simp
  then show ?case by (simp add: sql_insert_workersample.simps js_lt_def)
next
  case (Suc k)
  then have lt: "t < 50" by simp
  have "sql_insert_workersample (\<lambda>_. True) n (Val t) =
        sql_insert_workersample (\<lambda>_. True) (Suc n) (Val (t + 1))"
    using lt by (subst sql_insert_workersample.simps) (simp add: js_lt_def js_add_def)
  also have "\<dots> = GaveUp (Suc n + nat (51 - (t + 1)))"
    using Suc lt by (intro Suc.hyps(1)) auto
  also have "\<dots> = GaveUp (n + nat (51 - t))"
    using lt Suc.prems by (simp add: nat_diff_distrib)
  finally show ?case .
qed

text \<open>
  C9: the only caller, \<open>processSample\<close>, leaves out the argument for \<open>trycnt\<close>, so the
  timestamp \<open>bi\<close> arrives there. For a sample taken at \<open>bi = 1500\<close> the first failing
  insert finds \<open>trycnt < 50\<close> false and gives the row up after one \<open>db.run\<close> call, with
  no retry.
\<close>

theorem sql_insert_from_processSample_no_retry:
  "sqlCalls (processSample \<lparr>start = 1000, stop = 2000\<rparr> True
       (empty_sample\<lparr>aaid := Some ''a1'', bi := Val 1500\<rparr>)
       (Some \<lparr>act_start = Val 1510, act_end = Val 1570, act_duration = Val 50, act_logs = []\<rparr>)
       init_pstate)
     = [\<lparr>arg_trycnt = Val 1500,
         arg_row = [Val 1510, Val 1570, Undefined, Undefined, Val 10, Val 20, Val 50, Val 60,
                    Undefined, Undefined, Undefined, Undefined, Undefined]\<rparr>] \<and>
   run_insert (\<lambda>_. True) \<lparr>arg_trycnt = Val 1500,
         arg_row = [Val 1510, Val 1570, Undefined, Undefined, Val 10, Val 20, Val 50, Val 60,
                    Undefined, Undefined, Undefined, Undefined, Undefined]\<rparr> = GaveUp 1"
  by (simp add: processSample_def empty_sample_def init_pstate_def zero_tp_def js_lt_def js_gt_def
      js_sub_def parseInt_def truthy_err_def truthy_def Let_def run_insert_def
      sql_insert_workersample.simps)

theorem sql_insert_from_processSample_no_retry_witness:
  "run_insert (\<lambda>_. True) \<lparr>arg_trycnt = Val 1500,
         arg_row = [Val 1510, Val 1570, Undefined, Undefined, Val 10, Val 20, Val 50, Val 60,
                    Undefined, Undefined, Undefined, Undefined, Undefined]\<rparr> = GaveUp 1"
  using sql_insert_from_processSample_no_retry by simp

section \<open>Properties of the expansion of rule samples\<close>

lemma actionSamplesLoop_parsed:
  "\<exists>actionSamples. actionSamplesLoop smp (map Some recs) = Inr actionSamples \<and>
     length actionSamples = length recs \<and>
     (\<forall>i < length recs.
        bi (actionSamples ! i) = bi smp \<and> ts (actionSamples ! i) = ts smp \<and>
        (if success (recs ! i)
         then aaid (actionSamples ! i) = activationId (recs ! i)
         else aaidError (actionSamples ! i) = error (recs ! i)))"
proof (induction recs)
  case Nil
  then show ?case by simp
next
  case (Cons r recs)
  then obtain xs where xs: "actionSamplesLoop smp (map Some recs) = Inr xs"
    and len: "length xs = length recs"
    and each: "\<forall>i < length recs.
        bi (xs ! i) = bi smp \<and> ts (xs ! i) = ts smp \<and>
        (if success (recs ! i) then aaid (xs ! i) = activationId (recs ! i)
         else aaidError (xs ! i) = error (recs ! i))"
    by blast
  let ?x = "if success r then smp\<lparr>aaid := activationId r\<rparr> else smp\<lparr>aaidError := error r\<rparr>"
  have eq: "actionSamplesLoop smp (map Some (r # recs)) = Inr (?x # xs)"
    using xs by simp
  have len': "length (?x # xs) = length (r # recs)"
    using len by simp
  have "\<forall>i < length (r # recs).
        bi ((?x # xs) ! i) = bi smp \<and> ts ((?x # xs) ! i) = ts smp \<and>
        (if success ((r # recs) ! i) then aaid ((?x # xs) ! i) = activationId ((r # recs) ! i)
         else aaidError ((?x # xs) ! i) = error ((r # recs) ! i))"
  proof (intro allI impI)
    fix i assume "i < length (r # recs)"
    then show "bi ((?x # xs) ! i) = bi smp \<and> ts ((?x # xs) ! i) = ts smp \<and>
        (if success ((r # recs) ! i) then aaid ((?x # xs) ! i) = activationId ((r # recs) ! i)
         else aaidError ((?x # xs) ! i) = error ((r # recs) ! i))"
      using each by (cases i) auto
  qed
  with eq len' show ?case by blast
qed

text \<open>
  C5: for a rule sample without trigger error whose trigger activation is fetched and
  has \<open>n\<close> parsed log entries, \<open>getActionSamplesOfRules\<close> yields exactly \<open>n\<close> action
  samples; the \<open>i\<close>-th has the \<open>bi\<close> of the rule sample, the trigger activation's start
  as \<open>ts\<close>, and the \<open>i\<close>-th entry's activation id as \<open>aaid\<close> if the entry reports success
  and else the entry's error as \<open>aaidError\<close>; \<open>postProcess\<close> then runs
  \<open>processSampleWithAction\<close> on them one after the other, in the order of the log.
\<close>

theorem getActionSamplesOfRules_expansion:
  assumes valid: "\<not> truthy_err (taidError smp)"
    and fetched: "fetch (taid smp) = Some trg"
    and logs: "act_logs trg = map Some recs"
  shows "\<exists>smp' actionSamples.
     getActionSamplesOfRules fetch smp = Inr (smp', actionSamples) \<and>
     length actionSamples = length recs \<and>
     (\<forall>i < length recs.
        bi (actionSamples ! i) = bi smp \<and> ts (actionSamples ! i) = act_start trg \<and>
        (if success (recs ! i)
         then aaid (actionSamples ! i) = activationId (recs ! i)
         else aaidError (actionSamples ! i) = error (recs ! i))) \<and>
     postProcess RULE fetch mt sql [smp] st =
       Inr (foldl (\<lambda>s a. processSampleWithAction fetch mt sql a s) st actionSamples)"
proof -
  let ?smp' = "smp\<lparr>ts := act_start trg\<rparr>"
  obtain xs where xs: "actionSamplesLoop ?smp' (map Some recs) = Inr xs"
    and len: "length xs = length recs"
    and each: "\<forall>i < length recs.
        bi (xs ! i) = bi ?smp' \<and> ts (xs ! i) = ts ?smp' \<and>
        (if success (recs ! i) then aaid (xs ! i) = activationId (recs ! i)
         else aaidError (xs ! i) = error (recs ! i))"
    using actionSamplesLoop_parsed [of ?smp' recs] by blast
  have g: "getActionSamplesOfRules fetch smp = Inr (?smp', xs)"
    using fetched logs xs by (simp add: getActionSamplesOfRules_def Let_def)
  have p: "postProcess RULE fetch mt sql [smp] st =
       Inr (foldl (\<lambda>s a. processSampleWithAction fetch mt sql a s) st xs)"
    using valid g by simp
  from each have each': "\<forall>i < length recs.
        bi (xs ! i) = bi smp \<and> ts (xs ! i) = act_start trg \<and>
        (if success (recs ! i) then aaid (xs ! i) = activationId (recs ! i)
         else aaidError (xs ! i) = error (recs ! i))"
    by simp
  from g len each' p show ?thesis by blast
qed

text \<open>
  The scenario of a trigger with three bound actions, two succeeding and one failing:
  three derived samples, in log order.
\<close>

theorem getActionSamplesOfRules_expansion_witness:
  "\<exists>smp' actionSamples.
     getActionSamplesOfRules
       (\<lambda>id. if id = Some ''t1''
             then Some \<lparr>act_start = Val 105, act_end = Val 106, act_duration = Undefined,
                    act_logs = [Some \<lparr>success = True, activationId = Some ''a1'', error = None\<rparr>,
                                Some \<lparr>success = False, activationId = None,
                                      error = Some (ErrText ''throttled'')\<rparr>,
                                Some \<lparr>success = True, activationId = Some ''a3'', error = None\<rparr>]\<rparr>
             else None)
       (empty_sample\<lparr>taid := Some ''t1'', bi := Val 100\<rparr>) = Inr (smp', actionSamples) \<and>
     length actionSamples = 3 \<and>
     map bi actionSamples = [Val 100, Val 100, Val 100] \<and>
     map ts actionSamples = [Val 105, Val 105, Val 105] \<and>
     map aaid actionSamples = [Some ''a1'', None, Some ''a3''] \<and>
     map aaidError actionSamples = [None, Some (ErrText ''throttled''), None]"
  using getActionSamplesOfRules_expansion
    [of "empty_sample\<lparr>taid := Some ''t1'', bi := Val 100\<rparr>"
        "\<lambda>id. if id = Some ''t1''
             then Some \<lparr>act_start = Val 105, act_end = Val 106, act_duration = Undefined,
                    act_logs = [Some \<lparr>success = True, activationId = Some ''a1'', error = None\<rparr>,
                                Some \<lparr>success = False, activationId = None,
                                      error = Some (ErrText ''throttled'')\<rparr>,
                                Some \<lparr>success = True, activationId = Some ''a3'', error = None\<rparr>]\<rparr>
             else None"
        "\<lparr>act_start = Val 105, act_end = Val 106, act_duration = Undefined,
                    act_logs = [Some \<lparr>success = True, activationId = Some ''a1'', error = None\<rparr>,
                                Some \<lparr>success = False, activationId = None,
                                      error = Some (ErrText ''throttled'')\<rparr>,
                                Some \<lparr>success = True, activationId = Some ''a3'', error = None\<rparr>]\<rparr>"
        "[\<lparr>success = True, activationId = Some ''a1'', error = None\<rparr>,
          \<lparr>success = False, activationId = None, error = Some (ErrText ''throttled'')\<rparr>,
          \<lparr>success = True, activationId = Some ''a3'', error = None\<rparr>]"
        "\<lparr>start = 0, stop = 1000\<rparr>" False init_pstate]
  by (simp add: empty_sample_def truthy_err_def getActionSamplesOfRules_def Let_def)

section \<open>Properties of a full invocation\<close>

text \<open>What \<open>updateLatSample\<close> does with a value other than zero, and that it touches one key.\<close>

lemma updateLatSample_nonzero:
  assumes "v \<noteq> 0"
  shows "updateLatSample statName (Val v) lc statName =
     \<lparr>sum_acc = (case sum_acc (lc statName) of Val x \<Rightarrow> Val (x + v) | _ \<Rightarrow> Val v),
      sumSqr = (case sumSqr (lc statName) of Val x \<Rightarrow> Val (x + v * v) | _ \<Rightarrow> Val (v * v)),
      min_acc = (case min_acc (lc statName) of
                   Val m \<Rightarrow> if m = 0 \<or> v < m then Val v else Val m | _ \<Rightarrow> Val v),
      max_acc = (case max_acc (lc statName) of
                   Val m \<Rightarrow> if m = 0 \<or> m < v then Val v else Val m | _ \<Rightarrow> Val v)\<rparr>"
  using assms
  by (simp add: updateLatSample_def truthy_def js_add_def js_mul_def js_gt_def js_lt_def Let_def
      split: jsval.splits)

lemma updateLatSample_other:
  "other \<noteq> statName \<Longrightarrow> updateLatSample statName v lc other = lc other"
  by (simp add: updateLatSample_def Let_def)

text \<open>
  C2, as the claim states it, fails for a sample derived from a rule whose trigger start
  lies in the window: the trigger leg has already counted one activation and one
  request, so \<open>activations\<close> and \<open>requests\<close> grow by two.
\<close>

theorem processSample_full_invocation_counterexample:
  "\<not> (activations (tpCounters (processSample \<lparr>start = 1000, stop = 2000\<rparr> False
          (empty_sample\<lparr>taid := Some ''t1'', aaid := Some ''a1'', bi := Val 1500, ts := Val 1505\<rparr>)
          (Some \<lparr>act_start = Val 1510, act_end = Val 1570, act_duration = Val 50, act_logs = []\<rparr>)
          init_pstate))
        = activations (tpCounters init_pstate) + 1)"
  by (simp add: processSample_def empty_sample_def init_pstate_def zero_tp_def js_lt_def js_gt_def
      js_ge_def js_le_def js_sub_def parseInt_def truthy_err_def truthy_def Let_def)

text \<open>
  C2, amended: for a sample whose \<open>bi\<close> is in the window, without trigger error and
  action error, with a fetched activation that reports its duration \<open>d\<close>, whose start is
  not before the window and whose end is not after it, \<open>processSample\<close> increments
  \<open>attempts\<close> and \<open>invocations\<close> by one, and \<open>activations\<close> and \<open>requests\<close> by one,
  or by two when the sample carries a trigger start inside the window. It hands to
  \<open>updateLatSample\<close> exactly: \<open>d\<close>; \<open>ad = end - start\<close>; \<open>oea = start - bi\<close>;
  \<open>oer = end - bi - d\<close>; \<open>ta = start - ts\<close> when a trigger start was recorded and
  \<open>undefined\<close> otherwise; \<open>ora = ai - end\<close>, \<open>rtt = ai - bi\<close> and \<open>ortt = rtt - d\<close> when
  \<open>ai\<close> was recorded and \<open>undefined\<close> otherwise. Timestamps \<open>ts\<close> and \<open>ai\<close> equal to
  zero and a round trip \<open>rtt\<close> equal to zero are left aside.
\<close>

theorem processSample_full_invocation:
  assumes bi: "bi smp = Val b" "start mt \<le> b" "b \<le> stop mt"
    and noerr: "\<not> truthy_err (taidError smp)" "\<not> truthy_err (aaidError smp)"
    and act: "act_start act = Val as" "act_end act = Val ae" "act_duration act = Val d"
    and win: "start mt \<le> as" "ae \<le> stop mt"
    and nonzero: "ts smp \<noteq> Val 0" "ai smp \<noteq> Val 0" "ai smp \<noteq> Val b"
  shows "tpCounters (processSample mt sql smp (Some act) st) =
           (let k = (case ts smp of
                       Val t \<Rightarrow> if start mt \<le> t \<and> t \<le> stop mt then 1 else 0
                     | _ \<Rightarrow> 0)
            in (tpCounters st)\<lparr>attempts := attempts (tpCounters st) + 1,
                 activations := activations (tpCounters st) + 1 + k,
                 requests := requests (tpCounters st) + 1 + k,
                 invocations := invocations (tpCounters st) + 1\<rparr>) \<and>
         latCounters (processSample mt sql smp (Some act) st) =
           (let ta = (case ts smp of Val t \<Rightarrow> Val (as - t) | _ \<Rightarrow> Undefined);
                ora = (case ai smp of Val a \<Rightarrow> Val (a - ae) | _ \<Rightarrow> Undefined);
                rtt = (case ai smp of Val a \<Rightarrow> Val (a - b) | _ \<Rightarrow> Undefined);
                ortt = (case ai smp of Val a \<Rightarrow> Val (a - b - d) | _ \<Rightarrow> Undefined)
            in updateLatSample Ortt ortt (updateLatSample Rtt rtt (updateLatSample Ora ora
                 (updateLatSample Oer (Val (ae - b - d)) (updateLatSample Oea (Val (as - b))
                   (updateLatSample Ad (Val (ae - as)) (updateLatSample Ta ta
                     (updateLatSample D (Val d) (latCounters st)))))))))"
proof -
  have guard: "\<not> (js_lt (bi smp) (Val (start mt)) \<or> js_gt (bi smp) (Val (stop mt)))"
    using bi by (simp add: js_lt_def js_gt_def)
  have guard2: "\<not> (js_lt (parseInt (act_start act)) (Val (start mt)) \<or>
                   js_gt (parseInt (act_end act)) (Val (stop mt)))"
    using act win by (simp add: js_lt_def js_gt_def parseInt_def)
  show ?thesis
    using guard guard2 noerr bi(1) act nonzero
    by (cases "ts smp"; cases "ai smp")
       (simp_all add: processSample_def Let_def parseInt_def truthy_def js_sub_def
          js_ge_def js_le_def)
qed

theorem processSample_full_invocation_witness:
  "tpCounters (processSample \<lparr>start = 1000, stop = 2000\<rparr> False
      (empty_sample\<lparr>taid := Some ''t1'', aaid := Some ''a1'', bi := Val 1500, ts := Val 1505,
         ai := Val 1580\<rparr>)
      (Some \<lparr>act_start = Val 1510, act_end = Val 1570, act_duration = Val 50, act_logs = []\<rparr>)
      init_pstate)
     = \<lparr>attempts = 1, invocations = 1, activations = 2, requests = 2, errors = 0\<rparr> \<and>
   map (\<lambda>m. sum_acc (latCounters (processSample \<lparr>start = 1000, stop = 2000\<rparr> False
      (empty_sample\<lparr>taid := Some ''t1'', aaid := Some ''a1'', bi := Val 1500, ts := Val 1505,
         ai := Val 1580\<rparr>)
      (Some \<lparr>act_start = Val 1510, act_end = Val 1570, act_duration = Val 50, act_logs = []\<rparr>)
      init_pstate) m)) [D, Ta, Ad, Oea, Oer, Ora, Rtt, Ortt]
     = [Val 50, Val 5, Val 60, Val 10, Val 20, Val 10, Val 80, Val 30]"
  using processSample_full_invocation
    [of "empty_sample\<lparr>taid := Some ''t1'', aaid := Some ''a1'', bi := Val 1500, ts := Val 1505,
           ai := Val 1580\<rparr>"
        1500 "\<lparr>start = 1000, stop = 2000\<rparr>"
        "\<lparr>act_start = Val 1510, act_end = Val 1570, act_duration = Val 50, act_logs = []\<rparr>"
        1510 1570 50 False init_pstate]
  by (simp add: empty_sample_def init_pstate_def zero_tp_def empty_acc_def truthy_err_def
      updateLatSample_def truthy_def js_add_def js_mul_def js_gt_def js_lt_def Let_def)

section \<open>Properties of the aggregated latency statistics\<close>

text \<open>
  C4: two action invocations in the window, the first entering the action in the same
  millisecond as \<open>bi\<close> (\<open>oea = 0\<close>), the second 10 msec later (\<open>oea = 10\<close>). The zero
  is skipped by \<open>updateLatSample\<close>, so \<open>min\<close> is 10, while the average over the two
  invocations is 5: the metric has a contributing sample and \<open>min \<le> avg\<close> fails.
\<close>

theorem computeLatStats_min_above_avg:
  "\<exists>st r.
     postProcess ACTION
       (\<lambda>id. if id = Some ''a1''
             then Some \<lparr>act_start = Val 100, act_end = Val 150, act_duration = Val 40,
                        act_logs = []\<rparr>
             else if id = Some ''a2''
             then Some \<lparr>act_start = Val 210, act_end = Val 260, act_duration = Val 40,
                        act_logs = []\<rparr>
             else None)
       \<lparr>start = 0, stop = 1000\<rparr> False
       [empty_sample\<lparr>aaid := Some ''a1'', bi := Val 100\<rparr>,
        empty_sample\<lparr>aaid := Some ''a2'', bi := Val 200\<rparr>] init_pstate = Inr st \<and>
     invocations (tpCounters st) = 2 \<and>
     latCounters st Oea =
       \<lparr>sum_acc = Val 10, sumSqr = Val 100, min_acc = Val 10, max_acc = Val 10\<rparr> \<and>
     computeLatStats False [\<lparr>lat = latCounters st, tp = tpCounters st\<rparr>] Oea = Inr r \<and>
     avg r = Val 5 \<and> min_stat r = Val 10"
  by (simp add: processSampleWithAction_def processSample_def updateLatSample_def
      computeLatStats_def latStep_def latResult_def init_totals_def
      empty_sample_def init_pstate_def zero_tp_def empty_acc_def
      js_lt_def js_gt_def js_ge_def js_le_def js_sub_def js_add_def js_mul_def
      parseInt_def truthy_err_def truthy_def to_real_def r_div_def r_sub_def r_mul_def
      js_sqrt_def Let_def)

theorem computeLatStats_min_above_avg_witness:
  "\<exists>st. postProcess ACTION
       (\<lambda>id. if id = Some ''a1''
             then Some \<lparr>act_start = Val 100, act_end = Val 150, act_duration = Val 40,
                        act_logs = []\<rparr>
             else if id = Some ''a2''
             then Some \<lparr>act_start = Val 210, act_end = Val 260, act_duration = Val 40,
                        act_logs = []\<rparr>
             else None)
       \<lparr>start = 0, stop = 1000\<rparr> False
       [empty_sample\<lparr>aaid := Some ''a1'', bi := Val 100\<rparr>,
        empty_sample\<lparr>aaid := Some ''a2'', bi := Val 200\<rparr>] init_pstate = Inr st \<and>
     invocations (tpCounters st) = 2"
  using computeLatStats_min_above_avg by blast

section \<open>Properties of the invocation loop\<close>

lemma mainLoop_aborted: "abort st \<Longrightarrow> mainLoop fuel isMaster inp e k st = Some st"
  by (cases fuel) simp_all

lemma events_ignored:
  assumes "\<not> timerSet st" and "InitMsg \<notin> set evs"
  shows "foldl (handle_event True inp now) st evs = st"
  using assms
proof (induction evs)
  case Nil
  then show ?case by simp
next
  case (Cons ev evs)
  then have "handle_event True inp now st ev = st"
    by (cases ev) (simp_all add: handle_event_def)
  with Cons show ?case by simp
qed

lemma invokeActions_one_nonblocking:
  "\<exists>s. invokeActions inp e k 1 False si = [s] \<and> plain_action_sample s"
  by (cases "action_result e k 0")
     (simp_all add: invokeActions_def empty_sample_def plain_action_sample_def)


lemma loopPass_plain:
  assumes "warmupCounter st \<noteq> 0" and "remainingIterations st \<noteq> 0"
    and "\<not> timerSet st" and "InitMsg \<notin> set (events e k)"
    and "resolved_activity True inp = ACTION" and "resolved_blocking True inp = NONE"
    and "ratio inp = 1"
  shows "\<exists>s. plain_action_sample s \<and>
     loopPass True inp e k st =
       st\<lparr>warmupCounter := (if warmupCounter st \<ge> 0 then warmupCounter st - 1
                              else warmupCounter st),
          remainingIterations := (if remainingIterations st > 0 then remainingIterations st - 1
                                  else remainingIterations st),
          sampleData := sampleData st @ [s]\<rparr>"
proof -
  obtain s where s: "invokeActions inp e k 1 False (clock_si e k) = [s]"
    and plain: "plain_action_sample s"
    using invokeActions_one_nonblocking by blast
  have "loopPass True inp e k st =
       st\<lparr>warmupCounter := (if warmupCounter st \<ge> 0 then warmupCounter st - 1
                              else warmupCounter st),
          remainingIterations := (if remainingIterations st > 0 then remainingIterations st - 1
                                  else remainingIterations st),
          sampleData := sampleData st @ [s]\<rparr>"
    using assms s by (simp add: loopPass_def Let_def events_ignored)
  with plain show ?thesis by blast
qed

lemma loopPass_init:
  assumes "warmupCounter st = 0" and "remainingInits st = 1" and "remainingIterations st = - 1"
    and "iterations inp = Val n" and "0 < n"
    and "\<not> truthy (period inp)"
    and "\<not> timerSet st" and "InitMsg \<notin> set (events e k)"
    and "resolved_activity True inp = ACTION" and "resolved_blocking True inp = NONE"
    and "ratio inp = 1"
  shows "\<exists>s. plain_action_sample s \<and>
     loopPass True inp e k st =
       st\<lparr>remainingInits := 0,
          measurementTime := (measurementTime st)\<lparr>start := clock_start e k\<rparr>,
          remainingIterations := n - 1,
          warmupCounter := - 1,
          sampleData := sampleData st @ [s]\<rparr>"
proof -
  obtain s where s: "invokeActions inp e k 1 False (clock_si e k) = [s]"
    and plain: "plain_action_sample s"
    using invokeActions_one_nonblocking by blast
  have "loopPass True inp e k st =
       st\<lparr>remainingInits := 0,
          measurementTime := (measurementTime st)\<lparr>start := clock_start e k\<rparr>,
          remainingIterations := n - 1,
          warmupCounter := - 1,
          sampleData := sampleData st @ [s]\<rparr>"
    using assms s by (simp add: loopPass_def checkInit_def Let_def events_ignored)
  with plain show ?thesis by blast
qed

lemma loopPass_done:
  assumes "warmupCounter st = - 1" and "remainingIterations st = 0"
  shows "loopPass True inp e k st = st\<lparr>abort := True\<rparr>"
  using assms by (simp add: loopPass_def Let_def)

lemma mainLoop_measure:
  assumes "warmupCounter st = - 1" and "remainingIterations st = int r"
    and "\<not> abort st" and "\<not> timerSet st"
    and "\<forall>k. InitMsg \<notin> set (events e k)"
    and "resolved_activity True inp = ACTION" and "resolved_blocking True inp = NONE"
    and "ratio inp = 1"
    and "r < fuel"
  shows "\<exists>st' new. mainLoop fuel True inp e k st = Some st' \<and>
           sampleData st' = sampleData st @ new \<and> length new = r \<and>
           (\<forall>s \<in> set new. plain_action_sample s)"
  using assms
proof (induction r arbitrary: st k fuel)
  case 0
  then obtain f where f: "fuel = Suc f" by (cases fuel) auto
  have "loopPass True inp e k st = st\<lparr>abort := True\<rparr>"
    using 0 by (simp add: loopPass_done)
  then have "mainLoop fuel True inp e k st = Some (st\<lparr>abort := True\<rparr>)"
    using 0 f by (simp add: mainLoop_aborted)
  then show ?case by simp
next
  case (Suc r)
  then obtain f where f: "fuel = Suc f" and rf: "r < f" by (cases fuel) auto
  obtain s where plain: "plain_action_sample s"
    and pass: "loopPass True inp e k st =
       st\<lparr>warmupCounter := - 1, remainingIterations := int r,
          sampleData := sampleData st @ [s]\<rparr>"
    using loopPass_plain [of st e k inp] Suc.prems by auto
  let ?st1 = "st\<lparr>warmupCounter := - 1, remainingIterations := int r,
          sampleData := sampleData st @ [s]\<rparr>"
  have "\<exists>st' new. mainLoop f True inp e (Suc k) ?st1 = Some st' \<and>
           sampleData st' = sampleData ?st1 @ new \<and> length new = r \<and>
           (\<forall>s \<in> set new. plain_action_sample s)"
    using Suc.prems rf by (intro Suc.IH) simp_all
  then obtain st' new where run: "mainLoop f True inp e (Suc k) ?st1 = Some st'"
    and data: "sampleData st' = sampleData ?st1 @ new" and len: "length new = r"
    and all: "\<forall>s \<in> set new. plain_action_sample s"
    by blast
  have "mainLoop fuel True inp e k st = Some st'"
    using f Suc.prems(3) pass run by simp
  moreover have "sampleData st' = sampleData st @ (s # new)"
    using data by simp
  moreover have "length (s # new) = Suc r" using len by simp
  moreover have "\<forall>x \<in> set (s # new). plain_action_sample x" using plain all by simp
  ultimately show ?case by blast
qed

lemma mainLoop_warmup:
  assumes "warmupCounter st = int w" and "remainingInits st = 1"
    and "remainingIterations st = - 1"
    and "\<not> abort st" and "\<not> timerSet st"
    and "iterations inp = Val (int n)" and "0 < n" and "\<not> truthy (period inp)"
    and "\<forall>k. InitMsg \<notin> set (events e k)"
    and "resolved_activity True inp = ACTION" and "resolved_blocking True inp = NONE"
    and "ratio inp = 1"
    and "w + n < fuel"
  shows "\<exists>st' new. mainLoop fuel True inp e k st = Some st' \<and>
           sampleData st' = sampleData st @ new \<and> length new = w + n \<and>
           (\<forall>s \<in> set new. plain_action_sample s)"
  using assms
proof (induction w arbitrary: st k fuel)
  case 0
  then obtain f where f: "fuel = Suc f" and nf: "n - 1 < f" by (cases fuel) auto
  obtain s where plain: "plain_action_sample s"
    and pass: "loopPass True inp e k st =
       st\<lparr>remainingInits := 0,
          measurementTime := (measurementTime st)\<lparr>start := clock_start e k\<rparr>,
          remainingIterations := int n - 1,
          warmupCounter := - 1,
          sampleData := sampleData st @ [s]\<rparr>"
    using loopPass_init [of st inp "int n" e k] 0 by auto
  let ?st1 = "st\<lparr>remainingInits := 0,
          measurementTime := (measurementTime st)\<lparr>start := clock_start e k\<rparr>,
          remainingIterations := int n - 1,
          warmupCounter := - 1,
          sampleData := sampleData st @ [s]\<rparr>"
  have "\<exists>st' new. mainLoop f True inp e (Suc k) ?st1 = Some st' \<and>
           sampleData st' = sampleData ?st1 @ new \<and> length new = n - 1 \<and>
           (\<forall>s \<in> set new. plain_action_sample s)"
    using 0 nf by (intro mainLoop_measure) (simp_all add: of_nat_diff)
  then obtain st' new where run: "mainLoop f True inp e (Suc k) ?st1 = Some st'"
    and data: "sampleData st' = sampleData ?st1 @ new" and len: "length new = n - 1"
    and all: "\<forall>s \<in> set new. plain_action_sample s"
    by blast
  have "mainLoop fuel True inp e k st = Some st'"
    using f "0.prems"(4) pass run by simp
  moreover have "sampleData st' = sampleData st @ (s # new)"
    using data by simp
  moreover have "length (s # new) = 0 + n" using len "0.prems"(7) by simp
  moreover have "\<forall>x \<in> set (s # new). plain_action_sample x" using plain all by simp
  ultimately show ?case by blast
next
  case (Suc w)
  then obtain f where f: "fuel = Suc f" and wf: "w + n < f" by (cases fuel) auto
  obtain s where plain: "plain_action_sample s"
    and pass: "loopPass True inp e k st =
       st\<lparr>warmupCounter := int w, sampleData := sampleData st @ [s]\<rparr>"
    using loopPass_plain [of st e k inp] Suc.prems by auto
  let ?st1 = "st\<lparr>warmupCounter := int w, sampleData := sampleData st @ [s]\<rparr>"
  have "\<exists>st' new. mainLoop f True inp e (Suc k) ?st1 = Some st' \<and>
           sampleData st' = sampleData ?st1 @ new \<and> length new = w + n \<and>
           (\<forall>s \<in> set new. plain_action_sample s)"
    using Suc.prems wf by (intro Suc.IH) simp_all
  then obtain st' new where run: "mainLoop f True inp e (Suc k) ?st1 = Some st'"
    and data: "sampleData st' = sampleData ?st1 @ new" and len: "length new = w + n"
    and all: "\<forall>s \<in> set new. plain_action_sample s"
    by blast
  have "mainLoop fuel True inp e k st = Some st'"
    using f Suc.prems(4) pass run by simp
  moreover have "sampleData st' = sampleData st @ (s # new)"
    using data by simp
  moreover have "length (s # new) = Suc w + n" using len by simp
  moreover have "\<forall>x \<in> set (s # new). plain_action_sample x" using plain all by simp
  ultimately show ?case by blast
qed

text \<open>
  C8, as the claim states it, fails under the default warmup of 5: the loop also buffers
  the samples of the warmup passes, 15 in all.
\<close>

theorem mainLoop_default_warmup_counterexample:
  "map_option (\<lambda>st. length (sampleData st))
     (mainLoop 16 True
       \<lparr>activity = ACTION, blocking = NONE, master_activity = None, master_blocking = None,
        ratio = 1, warmup = 5, iterations = Val 10, period = Undefined, workers = 1,
        burst_timing = False\<rparr>
       \<lparr>clock_start = (\<lambda>k. 1000 + int k), clock_si = (\<lambda>k. 1000 + int k),
        clock_bi = (\<lambda>k i. 1000 + int k), clock_ai = (\<lambda>k i. 1001 + int k),
        action_result = (\<lambda>k i. Inr (Some ''a'')), trigger_result = (\<lambda>k. Inl ''none''),
        events = (\<lambda>k. [])\<rparr> 0
       (init_loop \<lparr>activity = ACTION, blocking = NONE, master_activity = None,
        master_blocking = None, ratio = 1, warmup = 5, iterations = Val 10, period = Undefined,
        workers = 1, burst_timing = False\<rparr>)) = Some 15"
proof -
  let ?inp = "\<lparr>activity = ACTION, blocking = NONE, master_activity = None, master_blocking = None,
        ratio = 1, warmup = 5, iterations = Val 10, period = Undefined, workers = 1,
        burst_timing = False\<rparr>"
  let ?e = "\<lparr>clock_start = (\<lambda>k. 1000 + int k), clock_si = (\<lambda>k. 1000 + int k),
        clock_bi = (\<lambda>k i. 1000 + int k), clock_ai = (\<lambda>k i. 1001 + int k),
        action_result = (\<lambda>k i. Inr (Some ''a'')), trigger_result = (\<lambda>k. Inl ''none''),
        events = (\<lambda>k. [])\<rparr>"
  have "\<exists>st' new. mainLoop 16 True ?inp ?e 0 (init_loop ?inp) = Some st' \<and>
           sampleData st' = sampleData (init_loop ?inp) @ new \<and>
           length new = 5 + 10 \<and>
           (\<forall>s \<in> set new. plain_action_sample s)"
    by (intro mainLoop_warmup)
       (simp_all add: init_loop_def resolved_activity_def resolved_blocking_def truthy_def)
  then show ?thesis by (auto simp add: init_loop_def)
qed

text \<open>
  C8, amended: at the master, configured with \<open>iterations = 10\<close>, \<open>workers = 1\<close>,
  \<open>ratio = 1\<close>, \<open>activity = action\<close>, \<open>blocking = none\<close>, no master settings, no period
  and a warmup count \<open>w \<ge> 0\<close>, with no init message arriving (there is no worker to
  send one), the loop ends and has buffered exactly \<open>w + 10\<close> samples, ten only when
  \<open>w = 0\<close>; every one is an action sample (nothing of a trigger on it) and none has
  \<open>ai\<close> set.
\<close>

theorem mainLoop_collects_warmup_plus_ten:
  assumes "iterations inp = Val 10" and "workers inp = 1" and "ratio inp = 1"
    and "activity inp = ACTION" and "blocking inp = NONE"
    and "master_activity inp = None" and "master_blocking inp = None"
    and "period inp = Undefined" and "0 \<le> warmup inp"
    and "\<forall>k. InitMsg \<notin> set (events e k)"
    and "nat (warmup inp) + 10 < fuel"
  shows "\<exists>st. mainLoop fuel True inp e 0 (init_loop inp) = Some st \<and>
           length (sampleData st) = nat (warmup inp) + 10 \<and>
           (\<forall>s \<in> set (sampleData st). ai s = Undefined \<and> taid s = None \<and> taidError s = None)"
proof -
  have "\<exists>st' new. mainLoop fuel True inp e 0 (init_loop inp) = Some st' \<and>
           sampleData st' = sampleData (init_loop inp) @ new \<and>
           length new = nat (warmup inp) + 10 \<and>
           (\<forall>s \<in> set new. plain_action_sample s)"
    using assms
    by (intro mainLoop_warmup)
       (simp_all add: init_loop_def resolved_activity_def resolved_blocking_def truthy_def)
  then show ?thesis
    by (auto simp add: init_loop_def plain_action_sample_def)
qed

theorem mainLoop_collects_warmup_plus_ten_witness:
  "\<exists>st. mainLoop 11 True
       \<lparr>activity = ACTION, blocking = NONE, master_activity = None, master_blocking = None,
        ratio = 1, warmup = 0, iterations = Val 10, period = Undefined, workers = 1,
        burst_timing = False\<rparr>
       \<lparr>clock_start = (\<lambda>k. 1000 + int k), clock_si = (\<lambda>k. 1000 + int k),
        clock_bi = (\<lambda>k i. 1000 + int k), clock_ai = (\<lambda>k i. 1001 + int k),
        action_result = (\<lambda>k i. Inr (Some ''a'')), trigger_result = (\<lambda>k. Inl ''none''),
        events = (\<lambda>k. [])\<rparr> 0
       (init_loop \<lparr>activity = ACTION, blocking = NONE, master_activity = None,
        master_blocking = None, ratio = 1, warmup = 0, iterations = Val 10, period = Undefined,
        workers = 1, burst_timing = False\<rparr>) = Some st \<and>
     length (sampleData st) = 10"
  using mainLoop_collects_warmup_plus_ten
    [of "\<lparr>activity = ACTION, blocking = NONE, master_activity = None, master_blocking = None,
        ratio = 1, warmup = 0, iterations = Val 10, period = Undefined, workers = 1,
        burst_timing = False\<rparr>"
        "\<lparr>clock_start = (\<lambda>k. 1000 + int k), clock_si = (\<lambda>k. 1000 + int k),
        clock_bi = (\<lambda>k i. 1000 + int k), clock_ai = (\<lambda>k i. 1001 + int k),
        action_result = (\<lambda>k i. Inr (Some ''a'')), trigger_result = (\<lambda>k. Inl ''none''),
        events = (\<lambda>k. [])\<rparr>" 11]
  by auto

end
